theory Spec2Isabelle
  imports Complex_Main "HOL-Library.Log_Nat"
begin

section \<open>Flappy Strawberry: the simulation core of \<^verbatim>\<open>src/index.js\<close>\<close>

text \<open>
  The embedding covers the simulation state and the functions that change it:
  \<^verbatim>\<open>readBestScore\<close>, \<^verbatim>\<open>flap\<close>, \<^verbatim>\<open>startGame\<close>, \<^verbatim>\<open>resetGame\<close>,
  \<^verbatim>\<open>generatePipeAtX\<close>, \<^verbatim>\<open>update\<close>, \<^verbatim>\<open>die\<close> and \<^verbatim>\<open>circleRectCollision\<close>.
  Drawing and audio read the simulation state and never write it; they are left out.

  A JavaScript number is modelled as a \<^typ>\<open>real\<close>: arithmetic is exact, and the
  rounding of IEEE-754 doubles, \<^verbatim>\<open>NaN\<close> and the infinities are not part of the
  model (the one place where the code tests for them, \<^verbatim>\<open>Number.isFinite\<close> in
  \<^verbatim>\<open>readBestScore\<close>, has its own result type below).
  \<^verbatim>\<open>Math.random()\<close> is an input: every function that may draw takes the draws
  it would see.
\<close>

subsection \<open>Constants (lines 116-117, 202-215)\<close>

definition GAME_WIDTH :: real where "GAME_WIDTH = 360"
definition GAME_HEIGHT :: real where "GAME_HEIGHT = 640"
definition gravity :: real where "gravity = 1800"
definition flapImpulse :: real where "flapImpulse = - 420"
definition terminalVelDown :: real where "terminalVelDown = 600"
definition terminalVelUp :: real where "terminalVelUp = - 700"
definition pipeGap :: real where "pipeGap = 160"
definition pipeWidth :: real where "pipeWidth = 56"
definition pipeSpacing :: real where "pipeSpacing = 240"
definition pipeSpeed :: real where "pipeSpeed = 125"
definition groundHeight :: real where "groundHeight = 72"
definition parallax_stars :: real where "parallax_stars = 10"
definition parallax_hills :: real where "parallax_hills = 20"
definition parallax_clouds :: real where "parallax_clouds = 35"
definition parallax_bushes :: real where "parallax_bushes = 60"

subsection \<open>The simulation state (lines 182-224)\<close>

text \<open>
  The source keeps the state in the global objects \<^verbatim>\<open>state\<close>, \<^verbatim>\<open>strawberry\<close>,
  \<^verbatim>\<open>pipes\<close> and \<^verbatim>\<open>bgOffset\<close>; \<open>world\<close> collects them. Field names carry a
  prefix where two objects share a name (\<^verbatim>\<open>pipe.x\<close>, \<^verbatim>\<open>strawberry.x\<close>).
  \<open>bestWrites\<close> is the log of the values handed to \<^verbatim>\<open>writeBestScore\<close>, oldest
  first.
\<close>

record game_state =
  started :: bool
  gameOver :: bool
  score :: real
  best :: real
  newBestAchieved :: bool

record player =
  sb_x :: real
  sb_y :: real
  sb_radius :: real
  sb_vy :: real
  sb_rotation :: real

record pipe =
  pipe_x :: real
  pipe_width :: real
  pipe_topHeight :: real
  pipe_passed :: bool
  pipe_styleTop :: string
  pipe_styleBottom :: string

record offsets =
  off_stars :: real
  off_hills :: real
  off_clouds :: real
  off_bushes :: real

record world =
  state :: game_state
  strawberry :: player
  pipes :: "pipe list"
  bgOffset :: offsets
  bestWrites :: "real list"

subsection \<open>Reading the persisted best score (lines 162-170)\<close>

text \<open>
  \<^verbatim>\<open>localStorage.getItem\<close> throws, returns \<^verbatim>\<open>null\<close> or returns a string.
\<close>

datatype storage = Unavailable | Slot "string option"

text \<open>
  The result of \<^verbatim>\<open>Number(raw)\<close>: not a number, an infinity, or a finite value.
\<close>

datatype jsnum = NaN | PosInfinity | NegInfinity | Fin real

text \<open>
  \<^verbatim>\<open>Number\<close> applied to a string is the StringToNumber conversion of ECMAScript:
  white space is trimmed; the empty string is 0; then comes a binary, octal or
  hexadecimal integer literal without sign, or a decimal literal with an optional sign
  (\<^verbatim>\<open>Infinity\<close>, or digits with an optional fraction and exponent); anything else
  is \<^verbatim>\<open>NaN\<close>. A value too large for a double becomes an infinity; the rounding of
  smaller values is not modelled. Strings are byte strings here, so only the ASCII white
  space characters are trimmed.
\<close>

definition isWhiteSpace :: "char \<Rightarrow> bool" where
  "isWhiteSpace c = (c \<in> set [CHR 0x09, CHR 0x0A, CHR 0x0B, CHR 0x0C, CHR 0x0D, CHR 0x20])"

definition trim :: "string \<Rightarrow> string" where
  "trim s = rev (dropWhile isWhiteSpace (rev (dropWhile isWhiteSpace s)))"

definition isDigit :: "char \<Rightarrow> bool" where
  "isDigit c = (c \<in> set ''0123456789'')"

definition digitVal :: "char \<Rightarrow> nat option" where
  "digitVal c =
     (if c \<in> set ''0123456789'' then Some (of_char c - 48)
      else if c \<in> set ''abcdef'' then Some (of_char c - 87)
      else if c \<in> set ''ABCDEF'' then Some (of_char c - 55)
      else None)"

fun readDigits :: "nat \<Rightarrow> nat \<Rightarrow> string \<Rightarrow> nat option" where
  "readDigits b acc [] = Some acc"
| "readDigits b acc (c # cs) =
     (case digitVal c of
        None \<Rightarrow> None
      | Some d \<Rightarrow> if d < b then readDigits b (b * acc + d) cs else None)"

definition readInteger :: "nat \<Rightarrow> string \<Rightarrow> nat option" where
  "readInteger b s = (if s = [] then None else readDigits b 0 s)"

text \<open>The value of a string of decimal digits.\<close>

definition decimalValue :: "string \<Rightarrow> nat" where
  "decimalValue ds = foldl (\<lambda>acc c. 10 * acc + (of_char c - 48)) 0 ds"

definition roundMV :: "real \<Rightarrow> jsnum" where
  "roundMV v =
     (if 2 ^ 1024 - 2 ^ 970 \<le> v then PosInfinity
      else if v \<le> - (2 ^ 1024 - 2 ^ 970) then NegInfinity
      else Fin v)"

definition parseExponent :: "string \<Rightarrow> int option" where
  "parseExponent s =
     (case s of
        [] \<Rightarrow> Some 0
      | c # r \<Rightarrow>
          if c = CHR ''e'' \<or> c = CHR ''E'' then
            (case r of
               [] \<Rightarrow> None
             | d # r' \<Rightarrow>
                 if d = CHR ''+'' then map_option int (readInteger 10 r')
                 else if d = CHR ''-'' then map_option (\<lambda>n. - int n) (readInteger 10 r')
                 else map_option int (readInteger 10 r))
          else None)"

definition parseUnsignedDecimal :: "string \<Rightarrow> real option" where
  "parseUnsignedDecimal s =
     (let ip = takeWhile isDigit s; r1 = dropWhile isDigit s
      in case r1 of
           c # r2 \<Rightarrow>
             if c = CHR ''.'' then
               (let fp = takeWhile isDigit r2; r3 = dropWhile isDigit r2
                in if ip = [] \<and> fp = [] then None
                   else (case parseExponent r3 of
                           None \<Rightarrow> None
                         | Some e \<Rightarrow>
                             Some ((real (decimalValue ip)
                                    + real (decimalValue fp) / 10 ^ length fp)
                                   * 10 powi e)))
             else if ip = [] then None
             else (case parseExponent r1 of
                     None \<Rightarrow> None
                   | Some e \<Rightarrow> Some (real (decimalValue ip) * 10 powi e))
         | [] \<Rightarrow> if ip = [] then None else Some (real (decimalValue ip)))"

definition parseDecimal :: "string \<Rightarrow> jsnum" where
  "parseDecimal s =
     (let neg = (s \<noteq> [] \<and> hd s = CHR ''-'');
          u = (if s \<noteq> [] \<and> (hd s = CHR ''+'' \<or> hd s = CHR ''-'') then tl s else s)
      in if u = ''Infinity'' then (if neg then NegInfinity else PosInfinity)
         else (case parseUnsignedDecimal u of
                 None \<Rightarrow> NaN
               | Some v \<Rightarrow> roundMV (if neg then - v else v)))"

definition Number :: "string \<Rightarrow> jsnum" where
  "Number raw =
     (let s = trim raw
      in if s = [] then Fin 0
         else if take 2 s = ''0x'' \<or> take 2 s = ''0X'' then
           (case readInteger 16 (drop 2 s) of None \<Rightarrow> NaN | Some n \<Rightarrow> roundMV (real n))
         else if take 2 s = ''0o'' \<or> take 2 s = ''0O'' then
           (case readInteger 8 (drop 2 s) of None \<Rightarrow> NaN | Some n \<Rightarrow> roundMV (real n))
         else if take 2 s = ''0b'' \<or> take 2 s = ''0B'' then
           (case readInteger 2 (drop 2 s) of None \<Rightarrow> NaN | Some n \<Rightarrow> roundMV (real n))
         else parseDecimal s)"

definition isFinite :: "jsnum \<Rightarrow> bool" where
  "isFinite n = (case n of Fin v \<Rightarrow> True | _ \<Rightarrow> False)"

definition readBestScore :: "storage \<Rightarrow> real" where
  "readBestScore sto =
     (case sto of
        Unavailable \<Rightarrow> 0
      | Slot raw \<Rightarrow>
          (let parsed = (case raw of None \<Rightarrow> Fin 0 | Some s \<Rightarrow> Number s)
           in if isFinite parsed then (case parsed of Fin v \<Rightarrow> v | _ \<Rightarrow> 0) else 0))"

definition writeBestScore :: "real \<Rightarrow> real list \<Rightarrow> real list" where
  "writeBestScore v ws = ws @ [v]"

subsection \<open>The state at load time (lines 182-198, 208, 224)\<close>

definition initial :: "storage \<Rightarrow> world" where
  "initial sto =
     \<lparr> state = \<lparr> started = False, gameOver = False, score = 0,
                 best = readBestScore sto, newBestAchieved = False \<rparr>,
       strawberry = \<lparr> sb_x = 80, sb_y = GAME_HEIGHT / 2, sb_radius = 18,
                      sb_vy = 0, sb_rotation = 0 \<rparr>,
       pipes = [],
       bgOffset = \<lparr> off_stars = 0, off_hills = 0, off_clouds = 0, off_bushes = 0 \<rparr>,
       bestWrites = [] \<rparr>"

subsection \<open>Obstacle generator (lines 294-311)\<close>

text \<open>\<open>r\<close> is the value \<^verbatim>\<open>Math.random()\<close> returns.\<close>

definition generatePipeAtX :: "real \<Rightarrow> real \<Rightarrow> pipe" where
  "generatePipeAtX r x =
     (let margin = 40;
          topHeight = of_int \<lfloor>margin + r * (GAME_HEIGHT - groundHeight - pipeGap - margin * 2)\<rfloor>
      in \<lparr> pipe_x = x, pipe_width = pipeWidth, pipe_topHeight = topHeight,
           pipe_passed = False, pipe_styleTop = ''Copilot'', pipe_styleBottom = ''Sonnet'' \<rparr>)"

text \<open>
  The height of the bottom segment, as \<^verbatim>\<open>update\<close> (lines 385-386) and
  \<^verbatim>\<open>drawPipes\<close> (lines 543-544) compute it.
\<close>

definition bottomY :: "pipe \<Rightarrow> real" where
  "bottomY p = pipe_topHeight p + pipeGap"

definition bottomHeight :: "pipe \<Rightarrow> real" where
  "bottomHeight p = GAME_HEIGHT - groundHeight - bottomY p"

subsection \<open>Start, reset, flap (lines 228-239, 262-287)\<close>

text \<open>
  The seeding loop of \<^verbatim>\<open>startGame\<close>: the first argument counts the iterations
  left, \<open>i\<close> is the loop counter, and \<open>rnd i\<close> is the draw of iteration \<open>i\<close>.
\<close>

fun seedLoop :: "nat \<Rightarrow> (nat \<Rightarrow> real) \<Rightarrow> nat \<Rightarrow> real \<Rightarrow> pipe list \<Rightarrow> pipe list" where
  "seedLoop 0 rnd i x ps = ps"
| "seedLoop (Suc n) rnd i x ps =
     seedLoop n rnd (Suc i) (x + pipeSpacing) (ps @ [generatePipeAtX (rnd i) x])"

definition startGame :: "(nat \<Rightarrow> real) \<Rightarrow> world \<Rightarrow> world" where
  "startGame rnd w =
     w \<lparr> state := (state w) \<lparr> started := True, gameOver := False, score := 0 \<rparr>,
         strawberry := (strawberry w) \<lparr> sb_y := GAME_HEIGHT / 2, sb_vy := 0 \<rparr>,
         pipes := seedLoop 4 rnd 0 (GAME_WIDTH + 120) [] \<rparr>"

definition resetGame :: "world \<Rightarrow> world" where
  "resetGame w =
     w \<lparr> state := (state w) \<lparr> started := False, gameOver := False, score := 0,
                              newBestAchieved := False \<rparr>,
         strawberry := (strawberry w) \<lparr> sb_y := GAME_HEIGHT / 2, sb_vy := 0 \<rparr>,
         pipes := [] \<rparr>"

definition flap :: "(nat \<Rightarrow> real) \<Rightarrow> world \<Rightarrow> world" where
  "flap rnd w =
     (if \<not> started (state w) then startGame rnd w
      else if gameOver (state w) then resetGame w
      else w \<lparr> strawberry := (strawberry w) \<lparr> sb_vy := flapImpulse \<rparr> \<rparr>)"

subsection \<open>Collision test (lines 410-416)\<close>

definition circleRectCollision ::
  "real \<Rightarrow> real \<Rightarrow> real \<Rightarrow> real \<Rightarrow> real \<Rightarrow> real \<Rightarrow> real \<Rightarrow> bool" where
  "circleRectCollision cx cy cr rx ry rw rh =
     (let nearestX = max rx (min cx (rx + rw));
          nearestY = max ry (min cy (ry + rh));
          dx = cx - nearestX;
          dy = cy - nearestY
      in dx * dx + dy * dy \<le> cr * cr)"

subsection \<open>One tick (lines 318-397)\<close>

definition die :: "game_state \<Rightarrow> game_state" where
  "die st = st \<lparr> gameOver := True \<rparr>"

text \<open>Lines 325-333: gravity, the velocity clamps, the position, the rotation.\<close>

definition integrate :: "real \<Rightarrow> player \<Rightarrow> player" where
  "integrate dtS sb =
     (let vy1 = sb_vy sb + gravity * dtS;
          vy2 = (if vy1 > terminalVelDown then terminalVelDown else vy1);
          vy3 = (if vy2 < terminalVelUp then terminalVelUp else vy2);
          y1 = sb_y sb + vy3 * dtS;
          targetRot = min 0.45 (max (- 0.6) (vy3 / 600));
          rotLerp = min 1 (dtS * 10)
      in sb \<lparr> sb_vy := vy3, sb_y := y1,
              sb_rotation := sb_rotation sb + (targetRot - sb_rotation sb) * rotLerp \<rparr>)"

text \<open>Lines 336-339: the ground ends the run.\<close>

definition groundCheck :: "world \<Rightarrow> world" where
  "groundCheck w =
     (let sb = strawberry w
      in if sb_y sb + sb_radius sb > GAME_HEIGHT - groundHeight
         then w \<lparr> strawberry := sb \<lparr> sb_y := GAME_HEIGHT - groundHeight - sb_radius sb \<rparr>,
                  state := die (state w) \<rparr>
         else w)"

text \<open>Lines 340-343: the ceiling stops the avatar.\<close>

definition ceilingCheck :: "world \<Rightarrow> world" where
  "ceilingCheck w =
     (let sb = strawberry w
      in if sb_y sb - sb_radius sb < 0
         then w \<lparr> strawberry := sb \<lparr> sb_y := sb_radius sb, sb_vy := 0 \<rparr> \<rparr>
         else w)"

text \<open>Lines 346-348.\<close>

definition movePipe :: "real \<Rightarrow> pipe \<Rightarrow> pipe" where
  "movePipe dtS p = p \<lparr> pipe_x := pipe_x p - pipeSpeed * dtS \<rparr>"

text \<open>Lines 352-355.\<close>

definition advanceOffsets :: "real \<Rightarrow> offsets \<Rightarrow> offsets" where
  "advanceOffsets dtS b =
     b \<lparr> off_stars := off_stars b + parallax_stars * dtS,
         off_hills := off_hills b + parallax_hills * dtS,
         off_clouds := off_clouds b + parallax_clouds * dtS,
         off_bushes := off_bushes b + parallax_bushes * dtS \<rparr>"

text \<open>Lines 358-361: \<^verbatim>\<open>pipes[0]\<close> is \<^verbatim>\<open>undefined\<close> on the empty array.\<close>

definition retireFirst :: "pipe list \<Rightarrow> pipe list" where
  "retireFirst ps =
     (case ps of
        [] \<Rightarrow> []
      | first # rest \<Rightarrow> if pipe_x first + pipeWidth < - 10 then rest else ps)"

text \<open>Lines 362-365, on the array after the retirement.\<close>

definition spawnLast :: "real \<Rightarrow> pipe list \<Rightarrow> pipe list" where
  "spawnLast r ps =
     (if ps \<noteq> [] \<and> pipe_x (last ps) < GAME_WIDTH - pipeSpacing
      then ps @ [generatePipeAtX r (pipe_x (last ps) + pipeSpacing)]
      else ps)"

text \<open>
  Lines 370-389, the body of the scoring loop for one obstacle: it may set the
  obstacle's latch, and changes \<^verbatim>\<open>state\<close> and the log of persisted values.
\<close>

definition scorePipe :: "player \<Rightarrow> pipe \<Rightarrow> game_state \<times> real list \<Rightarrow> pipe \<times> game_state \<times> real list" where
  "scorePipe sb p acc =
     (let st = fst acc; ws = snd acc;
          hit = (\<not> pipe_passed p \<and> sb_x sb > pipe_x p + pipe_width p);
          p1 = (if hit then p \<lparr> pipe_passed := True \<rparr> else p);
          st1 = (if hit then st \<lparr> score := score st + 1 \<rparr> else st);
          isBest = (hit \<and> score st1 > best st1);
          st2 = (if isBest then st1 \<lparr> newBestAchieved := True, best := score st1 \<rparr> else st1);
          ws2 = (if isBest then writeBestScore (best st2) ws else ws);
          st3 = (if circleRectCollision (sb_x sb) (sb_y sb) (sb_radius sb)
                      (pipe_x p1) 0 (pipe_width p1) (pipe_topHeight p1)
                 then die st2 else st2);
          st4 = (if circleRectCollision (sb_x sb) (sb_y sb) (sb_radius sb)
                      (pipe_x p1) (bottomY p1) (pipe_width p1) (bottomHeight p1)
                 then die st3 else st3)
      in (p1, st4, ws2))"

text \<open>Lines 368-390: the loop over the array, in order.\<close>

fun scoreLoop :: "player \<Rightarrow> pipe list \<Rightarrow> game_state \<times> real list \<Rightarrow> pipe list \<times> game_state \<times> real list" where
  "scoreLoop sb [] acc = ([], acc)"
| "scoreLoop sb (p # ps) acc =
     (case scorePipe sb p acc of
        (p', acc') \<Rightarrow> (case scoreLoop sb ps acc' of (ps', acc'') \<Rightarrow> (p' # ps', acc'')))"

text \<open>
  \<^verbatim>\<open>update(dt)\<close>; \<open>r\<close> is the draw that \<^verbatim>\<open>generatePipeAtX\<close> sees if this tick
  spawns an obstacle.
\<close>

definition update :: "real \<Rightarrow> real \<Rightarrow> world \<Rightarrow> world" where
  "update dt r w =
     (if \<not> started (state w) \<or> gameOver (state w) then w
      else
        let dtS = dt / 1000;
            w1 = w \<lparr> strawberry := integrate dtS (strawberry w) \<rparr>;
            w2 = groundCheck w1;
            w3 = ceilingCheck w2;
            w4 = w3 \<lparr> pipes := map (movePipe dtS) (pipes w3) \<rparr>;
            w5 = w4 \<lparr> bgOffset := advanceOffsets dtS (bgOffset w4) \<rparr>;
            w6 = w5 \<lparr> pipes := retireFirst (pipes w5) \<rparr>;
            w7 = w6 \<lparr> pipes := spawnLast r (pipes w6) \<rparr>
        in case scoreLoop (strawberry w7) (pipes w7) (state w7, bestWrites w7) of
             (ps, st, ws) \<Rightarrow> w7 \<lparr> pipes := ps, state := st, bestWrites := ws \<rparr>)"

subsection \<open>Event sequences\<close>

text \<open>
  The page calls \<^verbatim>\<open>flap\<close> on an input event (lines 241-248) and
  \<^verbatim>\<open>update\<close> on an animation frame (lines 252-258). An event carries the draws
  its call would see; \<open>run\<close> applies a sequence of events in order, and a state is
  reachable when some sequence leads to it from the state at load time.
\<close>

datatype event = Flap "nat \<Rightarrow> real" | Tick real real

fun step :: "event \<Rightarrow> world \<Rightarrow> world" where
  "step (Flap rnd) w = flap rnd w"
| "step (Tick dt r) w = update dt r w"

fun run :: "event list \<Rightarrow> world \<Rightarrow> world" where
  "run [] w = w"
| "run (e # es) w = run es (step e w)"

inductive reachable :: "world \<Rightarrow> bool" where
  reachable_initial: "reachable (initial sto)"
| reachable_step: "reachable w \<Longrightarrow> reachable (step e w)"

subsection \<open>Following one obstacle through the ticks\<close>

text \<open>
  The array the scoring loop of a tick iterates over: the obstacles moved (lines
  346-348), the head retired (lines 358-361), a new tail spawned (lines 362-365).
\<close>

definition scoringInput :: "real \<Rightarrow> real \<Rightarrow> world \<Rightarrow> pipe list" where
  "scoringInput dt r w = spawnLast r (retireFirst (map (movePipe (dt / 1000)) (pipes w)))"

text \<open>Whether a tick of \<open>dt\<close> milliseconds takes the head obstacle out of the array.\<close>

definition retiresHead :: "real \<Rightarrow> world \<Rightarrow> bool" where
  "retiresHead dt w =
     (retireFirst (map (movePipe (dt / 1000)) (pipes w)) \<noteq> map (movePipe (dt / 1000)) (pipes w))"


text \<open>
  \<open>incrementTicks ts w i\<close> lists, along the ticks \<open>ts\<close> (each a \<open>dt\<close> and the draw
  of that tick) from the state \<open>w\<close>, the positions in \<open>ts\<close> of the ticks in which the
  latch \<^verbatim>\<open>passed\<close> of the obstacle at index \<open>i\<close> of \<open>w\<close> goes from unset to set:
  lines 370-372 add 1 to the score exactly then. The obstacle moves one index down when
  the head is retired, and the list ends when the obstacle itself is retired.
\<close>

fun incrementTicks :: "(real \<times> real) list \<Rightarrow> world \<Rightarrow> nat \<Rightarrow> nat list" where
  "incrementTicks [] w i = []"
| "incrementTicks ((dt, r) # ts) w i =
     (if \<not> started (state w) \<or> gameOver (state w) then map Suc (incrementTicks ts w i)
      else if retiresHead dt w \<and> i = 0 then []
      else let j = (if retiresHead dt w then i - 1 else i)
           in (if \<not> pipe_passed (pipes w ! i) \<and> pipe_passed (pipes (update dt r w) ! j)
               then [0] else [])
              @ map Suc (incrementTicks ts (update dt r w) j))"

text \<open>
  \<open>firstBehind ts w i\<close> is the position in \<open>ts\<close> of the first tick that runs and
  after whose move the avatar's x exceeds the trailing edge \<open>pipe_x + pipe_width\<close> of
  the obstacle at index \<open>i\<close> of \<open>w\<close>, if there is one while the obstacle is in the
  array. It looks at positions only, not at the latch.
\<close>

fun firstBehind :: "(real \<times> real) list \<Rightarrow> world \<Rightarrow> nat \<Rightarrow> nat option" where
  "firstBehind [] w i = None"
| "firstBehind ((dt, r) # ts) w i =
     (if \<not> started (state w) \<or> gameOver (state w) then map_option Suc (firstBehind ts w i)
      else if sb_x (strawberry w)
                > pipe_x (pipes w ! i) - pipeSpeed * (dt / 1000) + pipe_width (pipes w ! i)
      then Some 0
      else if retiresHead dt w \<and> i = 0 then None
      else map_option Suc
             (firstBehind ts (update dt r w) (if retiresHead dt w then i - 1 else i)))"

text \<open>
  The state invariant behind the scoring: the avatar sits at x = 80, every obstacle has
  the width \<open>pipeWidth\<close>, and every obstacle whose trailing edge is behind the avatar
  has its latch set.
\<close>

definition scoredBehind :: "world \<Rightarrow> bool" where
  "scoredBehind w =
     (sb_x (strawberry w) = 80
      \<and> list_all (\<lambda>p. pipe_width p = pipeWidth
                       \<and> (sb_x (strawberry w) > pipe_x p + pipe_width p \<longrightarrow> pipe_passed p))
           (pipes w))"

subsection \<open>Spacing of the obstacle sequence\<close>

text \<open>Two consecutive obstacles, \<open>p\<close> before \<open>q\<close>, are \<open>pipeSpacing\<close> apart.\<close>

abbreviation spacedBy :: "pipe \<Rightarrow> pipe \<Rightarrow> bool" where
  "spacedBy p q \<equiv> pipe_x q = pipe_x p + pipeSpacing"

subsection \<open>The obstacle scroll in double precision\<close>

text \<open>
  The code runs on IEEE-754 doubles: every arithmetic operation rounds its exact result
  to the nearest double, ties to even. \<open>roundDouble\<close> is that rounding for the normal
  range (no overflow, no subnormals): \<open>binade a\<close> is the exponent \<open>e\<close> with
  \<open>2^e \<le> a < 2^(e+1)\<close>, and a double in that binade is a multiple of \<open>2^(e-52)\<close>.
  \<open>movePipeDouble\<close> is lines 322 and 347 with the rounding of each of the three
  operations written out.
\<close>

definition binade :: "real \<Rightarrow> int" where
  "binade a =
     (if 1 \<le> a then int (floorlog 2 (nat \<lfloor>a\<rfloor>)) - 1
      else - int (floorlog 2 (nat \<lceil>1 / a\<rceil> - 1)))"

definition roundDouble :: "real \<Rightarrow> real" where
  "roundDouble x =
     (if x = 0 then 0
      else let u = 2 powi (binade \<bar>x\<bar> - 52);
               q = \<bar>x\<bar> / u;
               n = \<lfloor>q\<rfloor>;
               f = q - of_int n;
               m = (if f < 1 / 2 then n else if 1 / 2 < f then n + 1
                    else if even n then n else n + 1)
           in sgn x * of_int m * u)"

definition movePipeDouble :: "real \<Rightarrow> pipe \<Rightarrow> pipe" where
  "movePipeDouble dt p =
     p \<lparr> pipe_x := roundDouble (pipe_x p - roundDouble (pipeSpeed * roundDouble (dt / 1000))) \<rparr>"

section \<open>Basic facts\<close>

lemmas game_consts =
  GAME_WIDTH_def GAME_HEIGHT_def gravity_def flapImpulse_def terminalVelDown_def
  terminalVelUp_def pipeGap_def pipeWidth_def pipeSpacing_def pipeSpeed_def groundHeight_def
  parallax_stars_def parallax_hills_def parallax_clouds_def parallax_bushes_def

section \<open>Collision detector\<close>

text \<open>
  C2, as stated: a circle of radius 0 centred exactly at a corner of the rectangle does
  not collide. The code says the opposite: the nearest point of the rectangle is the
  corner itself, the squared distance is 0, and the test \<^verbatim>\<open>0 <= 0\<close> is inclusive.
  Counterexample: the unit square at the origin and the circle at its corner (0, 0).
\<close>

theorem C2_corner_radius0_counterexample:
  "circleRectCollision 0 0 0 0 0 1 1 = True"
  by (simp add: circleRectCollision_def)

text \<open>
  C2, amended: for every axis-aligned rectangle (width and height not negative) and each
  of its four corners, the collision test for a circle of radius 0 centred at that
  corner returns true.
\<close>

theorem C2_corner_radius0_collides:
  assumes "0 \<le> rw" and "0 \<le> rh"
  shows "circleRectCollision rx ry 0 rx ry rw rh
       \<and> circleRectCollision (rx + rw) ry 0 rx ry rw rh
       \<and> circleRectCollision rx (ry + rh) 0 rx ry rw rh
       \<and> circleRectCollision (rx + rw) (ry + rh) 0 rx ry rw rh"
  using assms by (simp add: circleRectCollision_def Let_def min_def max_def)

theorem C2_corner_radius0_collides_witness:
  "(0::real) \<le> 56 \<and> (0::real) \<le> 200
   \<and> circleRectCollision 480 0 0 480 0 56 200
   \<and> circleRectCollision (480 + 56) 0 0 480 0 56 200
   \<and> circleRectCollision 480 (0 + 200) 0 480 0 56 200
   \<and> circleRectCollision (480 + 56) (0 + 200) 0 480 0 56 200"
  using C2_corner_radius0_collides [of 56 200 480 0] by simp

section \<open>One tick: gating and the avatar\<close>

lemma update_not_running: "\<not> started (state w) \<or> gameOver (state w) \<Longrightarrow> update dt r w = w"
  by (auto simp add: update_def)

lemma update_strawberry:
  "started (state w) \<Longrightarrow> \<not> gameOver (state w) \<Longrightarrow>
   strawberry (update dt r w) =
     strawberry (ceilingCheck (groundCheck
       (w \<lparr> strawberry := integrate (dt / 1000) (strawberry w) \<rparr>)))"
  by (simp add: update_def Let_def split: prod.splits)

lemma integrate_vy_bounds:
  "terminalVelUp \<le> sb_vy (integrate dtS sb) \<and> sb_vy (integrate dtS sb) \<le> terminalVelDown"
  by (simp add: integrate_def Let_def game_consts)

lemma groundCheck_vy: "sb_vy (strawberry (groundCheck w)) = sb_vy (strawberry w)"
  by (simp add: groundCheck_def Let_def)

lemma ceilingCheck_vy:
  "sb_vy (strawberry (ceilingCheck w)) =
     (if sb_y (strawberry w) - sb_radius (strawberry w) < 0 then 0 else sb_vy (strawberry w))"
  by (simp add: ceilingCheck_def Let_def)

text \<open>
  C9: for every \<open>dt\<close> (and every draw), if the game is not Running, that is it has not
  started or it is over, \<^verbatim>\<open>update\<close> returns the whole simulation state as it was:
  avatar, obstacles, score, best, new-best flag, game state, parallax offsets and the
  log of persisted values.
\<close>

theorem C9_update_noop_unless_running:
  assumes "\<not> started (state w) \<or> gameOver (state w)"
  shows "update dt r w = w"
  using assms by (rule update_not_running)

theorem C9_update_noop_unless_running_witness:
  "\<not> started (state (initial (Slot None)))
   \<and> update 16 0 (initial (Slot None)) = initial (Slot None)"
  using C9_update_noop_unless_running [of "initial (Slot None)" 16 0]
  by (simp add: initial_def)

text \<open>
  C5: after one tick the vertical velocity lies in \<open>[terminalVelUp, terminalVelDown]\<close>
  \<open>= [-700, 600]\<close>. In a Running state this holds for every starting velocity and
  every \<open>dt\<close> (negative ones too): lines 326-327 clamp the integrated velocity, and
  line 342 can only replace it by 0. In a state that is not Running the tick does not
  integrate, so the velocity stays what it was, inside the interval if it was inside.
\<close>

theorem C5_velocity_clamped:
  assumes "(started (state w) \<and> \<not> gameOver (state w))
           \<or> (terminalVelUp \<le> sb_vy (strawberry w) \<and> sb_vy (strawberry w) \<le> terminalVelDown)"
  shows "terminalVelUp \<le> sb_vy (strawberry (update dt r w))
       \<and> sb_vy (strawberry (update dt r w)) \<le> terminalVelDown
       \<and> terminalVelUp = - 700 \<and> terminalVelDown = 600"
proof (cases "started (state w) \<and> \<not> gameOver (state w)")
  case True
  then show ?thesis
    using integrate_vy_bounds [of "dt / 1000" "strawberry w"]
    by (simp add: update_strawberry ceilingCheck_vy groundCheck_vy
        terminalVelUp_def terminalVelDown_def)
next
  case False
  then have "update dt r w = w"
    by (auto simp add: update_def)
  with assms False show ?thesis
    by (simp add: terminalVelUp_def terminalVelDown_def)
qed

theorem C5_velocity_clamped_witness:
  "((started (state ((startGame (\<lambda>i. 0) (initial (Slot None)))
        \<lparr> strawberry := \<lparr> sb_x = 80, sb_y = 320, sb_radius = 18, sb_vy = 5000, sb_rotation = 0 \<rparr> \<rparr>))
     \<and> \<not> gameOver (state ((startGame (\<lambda>i. 0) (initial (Slot None)))
        \<lparr> strawberry := \<lparr> sb_x = 80, sb_y = 320, sb_radius = 18, sb_vy = 5000, sb_rotation = 0 \<rparr> \<rparr>)))
    \<or> (terminalVelUp \<le> sb_vy (strawberry ((startGame (\<lambda>i. 0) (initial (Slot None)))
        \<lparr> strawberry := \<lparr> sb_x = 80, sb_y = 320, sb_radius = 18, sb_vy = 5000, sb_rotation = 0 \<rparr> \<rparr>))
       \<and> sb_vy (strawberry ((startGame (\<lambda>i. 0) (initial (Slot None)))
        \<lparr> strawberry := \<lparr> sb_x = 80, sb_y = 320, sb_radius = 18, sb_vy = 5000, sb_rotation = 0 \<rparr> \<rparr>))
          \<le> terminalVelDown))
   \<and> terminalVelUp \<le> sb_vy (strawberry (update 16 0 ((startGame (\<lambda>i. 0) (initial (Slot None)))
        \<lparr> strawberry := \<lparr> sb_x = 80, sb_y = 320, sb_radius = 18, sb_vy = 5000, sb_rotation = 0 \<rparr> \<rparr>)))
   \<and> sb_vy (strawberry (update 16 0 ((startGame (\<lambda>i. 0) (initial (Slot None)))
        \<lparr> strawberry := \<lparr> sb_x = 80, sb_y = 320, sb_radius = 18, sb_vy = 5000, sb_rotation = 0 \<rparr> \<rparr>)))
       \<le> terminalVelDown"
  using C5_velocity_clamped [of "(startGame (\<lambda>i. 0) (initial (Slot None)))
        \<lparr> strawberry := \<lparr> sb_x = 80, sb_y = 320, sb_radius = 18, sb_vy = 5000, sb_rotation = 0 \<rparr> \<rparr>" 16 0]
  by (simp add: startGame_def)

text \<open>
  C3, as stated: from \<open>y = 0\<close> and velocity 100, one 16 ms tick without a flap ends
  with velocity 128.8 and \<open>y = 2.0608\<close>. The code does not end the tick there: the
  avatar has radius 18, so \<open>y - radius < 0\<close> and lines 340-343 put it back at
  \<open>y = radius\<close> with velocity 0. Counterexample: a run just started, with the avatar
  moved to \<open>y = 0\<close> and velocity 100.
\<close>

theorem C3_tick_at_top_counterexample:
  "\<not> (sb_vy (strawberry (update 16 0 ((startGame (\<lambda>i. 0) (initial (Slot None)))
          \<lparr> strawberry := \<lparr> sb_x = 80, sb_y = 0, sb_radius = 18, sb_vy = 100, sb_rotation = 0 \<rparr> \<rparr>)))
        = 128.8
      \<and> sb_y (strawberry (update 16 0 ((startGame (\<lambda>i. 0) (initial (Slot None)))
          \<lparr> strawberry := \<lparr> sb_x = 80, sb_y = 0, sb_radius = 18, sb_vy = 100, sb_rotation = 0 \<rparr> \<rparr>)))
        = 2.0608)"
  by (simp add: update_strawberry startGame_def ceilingCheck_def groundCheck_def
      integrate_def Let_def game_consts)

text \<open>
  C3, amended: in a Running state with the avatar (radius 18) at \<open>y = 0\<close> and velocity
  100, the integration of a 16 ms tick gives, in exact arithmetic, velocity
  \<open>100 + 1800 * 0.016 = 128.8\<close> and \<open>y = 0 + 128.8 * 0.016 = 2.0608\<close>; the avatar's
  upper extent is then above the top boundary, so the tick ends with \<open>y = 18\<close> (the
  radius) and velocity 0.
\<close>

theorem C3_tick_at_top:
  assumes "started (state w)" and "\<not> gameOver (state w)"
    and "sb_y (strawberry w) = 0" and "sb_vy (strawberry w) = 100"
    and "sb_radius (strawberry w) = 18"
  shows "sb_vy (integrate (16 / 1000) (strawberry w)) = 128.8
       \<and> sb_y (integrate (16 / 1000) (strawberry w)) = 2.0608
       \<and> sb_vy (strawberry (update 16 r w)) = 0
       \<and> sb_y (strawberry (update 16 r w)) = 18"
  using assms
  by (simp add: update_strawberry ceilingCheck_def groundCheck_def integrate_def Let_def
      game_consts)

theorem C3_tick_at_top_witness:
  "started (state ((startGame (\<lambda>i. 0) (initial (Slot None)))
      \<lparr> strawberry := \<lparr> sb_x = 80, sb_y = 0, sb_radius = 18, sb_vy = 100, sb_rotation = 0 \<rparr> \<rparr>))
   \<and> \<not> gameOver (state ((startGame (\<lambda>i. 0) (initial (Slot None)))
      \<lparr> strawberry := \<lparr> sb_x = 80, sb_y = 0, sb_radius = 18, sb_vy = 100, sb_rotation = 0 \<rparr> \<rparr>))
   \<and> sb_vy (strawberry (update 16 0 ((startGame (\<lambda>i. 0) (initial (Slot None)))
      \<lparr> strawberry := \<lparr> sb_x = 80, sb_y = 0, sb_radius = 18, sb_vy = 100, sb_rotation = 0 \<rparr> \<rparr>))) = 0
   \<and> sb_y (strawberry (update 16 0 ((startGame (\<lambda>i. 0) (initial (Slot None)))
      \<lparr> strawberry := \<lparr> sb_x = 80, sb_y = 0, sb_radius = 18, sb_vy = 100, sb_rotation = 0 \<rparr> \<rparr>))) = 18"
  using C3_tick_at_top [of "(startGame (\<lambda>i. 0) (initial (Slot None)))
      \<lparr> strawberry := \<lparr> sb_x = 80, sb_y = 0, sb_radius = 18, sb_vy = 100, sb_rotation = 0 \<rparr> \<rparr>" 0]
  by (simp add: startGame_def)

section \<open>The game state machine\<close>

lemma seedLoop_4:
  "seedLoop 4 rnd 0 x [] =
     [generatePipeAtX (rnd 0) x, generatePipeAtX (rnd 1) (x + pipeSpacing),
      generatePipeAtX (rnd 2) (x + pipeSpacing + pipeSpacing),
      generatePipeAtX (rnd 3) (x + pipeSpacing + pipeSpacing + pipeSpacing)]"
  by (simp add: numeral_eq_Suc)

text \<open>
  C1, as stated: a single flap in the Ended state resets and goes directly to Running
  with re-seeded obstacles, not to Idle. In the code \<^verbatim>\<open>flap\<close> calls
  \<^verbatim>\<open>resetGame\<close> and returns (lines 234-237), and \<^verbatim>\<open>resetGame\<close> sets
  \<^verbatim>\<open>state.started = false\<close> and empties the array: the game is Idle, with no
  obstacles. Counterexample: a run just started and then ended.
\<close>

theorem C1_flap_from_ended_counterexample:
  "\<not> started (state (flap (\<lambda>i. 0)
        ((startGame (\<lambda>i. 0) (initial (Slot None)))
           \<lparr> state := \<lparr> started = True, gameOver = True, score = 3, best = 3,
                        newBestAchieved = True \<rparr> \<rparr>)))
   \<and> pipes (flap (\<lambda>i. 0)
        ((startGame (\<lambda>i. 0) (initial (Slot None)))
           \<lparr> state := \<lparr> started = True, gameOver = True, score = 3, best = 3,
                        newBestAchieved = True \<rparr> \<rparr>)) = []"
  by (simp add: flap_def resetGame_def startGame_def)

text \<open>
  C1, amended: for every state where the game is Ended, a single flap performs the full
  reset (score 0, obstacle sequence cleared, new-best flag cleared, avatar back at its
  default position \<open>GAME_HEIGHT / 2 = 320\<close> with velocity 0, best untouched) and
  leaves the game Idle with no obstacles; the next flap takes it from Idle to Running
  with four freshly generated obstacles at x = 480, 720, 960 and 1200.
\<close>

theorem C1_flap_from_ended:
  assumes "started (state w)" and "gameOver (state w)"
  shows "flap rnd w =
           w \<lparr> state := \<lparr> started = False, gameOver = False, score = 0,
                          best = best (state w), newBestAchieved = False \<rparr>,
               strawberry := (strawberry w) \<lparr> sb_y := 320, sb_vy := 0 \<rparr>,
               pipes := [] \<rparr>
       \<and> started (state (flap rnd' (flap rnd w)))
       \<and> \<not> gameOver (state (flap rnd' (flap rnd w)))
       \<and> pipes (flap rnd' (flap rnd w)) =
           map (\<lambda>i. generatePipeAtX (rnd' i) (480 + 240 * real i)) [0, 1, 2, 3]"
  using assms
  by (simp add: flap_def resetGame_def startGame_def seedLoop_4 game_consts
      generatePipeAtX_def Let_def)

theorem C1_flap_from_ended_witness:
  "started (state ((startGame (\<lambda>i. 0) (initial (Slot None)))
      \<lparr> state := \<lparr> started = True, gameOver = True, score = 3, best = 3,
                   newBestAchieved = True \<rparr> \<rparr>))
   \<and> gameOver (state ((startGame (\<lambda>i. 0) (initial (Slot None)))
      \<lparr> state := \<lparr> started = True, gameOver = True, score = 3, best = 3,
                   newBestAchieved = True \<rparr> \<rparr>))
   \<and> state (flap (\<lambda>i. 0) ((startGame (\<lambda>i. 0) (initial (Slot None)))
      \<lparr> state := \<lparr> started = True, gameOver = True, score = 3, best = 3,
                   newBestAchieved = True \<rparr> \<rparr>))
       = \<lparr> started = False, gameOver = False, score = 0, best = 3, newBestAchieved = False \<rparr>
   \<and> pipes (flap (\<lambda>i. 0) ((startGame (\<lambda>i. 0) (initial (Slot None)))
      \<lparr> state := \<lparr> started = True, gameOver = True, score = 3, best = 3,
                   newBestAchieved = True \<rparr> \<rparr>)) = []"
  using C1_flap_from_ended [of "(startGame (\<lambda>i. 0) (initial (Slot None)))
      \<lparr> state := \<lparr> started = True, gameOver = True, score = 3, best = 3,
                   newBestAchieved = True \<rparr> \<rparr>" "\<lambda>i. 0" "\<lambda>i. 0"]
  by (simp add: startGame_def)

section \<open>Obstacle generator\<close>

text \<open>
  C6: for every draw \<open>r\<close> in \<open>[0, 1)\<close> and every position, the generated obstacle has
  \<open>topHeight \<ge> margin\<close> and \<open>bottomHeight \<ge> margin\<close> with \<open>margin = 40\<close>, where
  \<open>bottomHeight = GAME_HEIGHT - groundHeight - pipeGap - topHeight\<close> is the height
  lines 385-386 compute, and \<open>topHeight + pipeGap + bottomHeight = GAME_HEIGHT - groundHeight\<close>.
\<close>

theorem C6_generated_heights:
  assumes "0 \<le> r" and "r < 1"
  shows "40 \<le> pipe_topHeight (generatePipeAtX r x)
       \<and> 40 \<le> bottomHeight (generatePipeAtX r x)
       \<and> bottomHeight (generatePipeAtX r x)
           = GAME_HEIGHT - groundHeight - pipeGap - pipe_topHeight (generatePipeAtX r x)
       \<and> pipe_topHeight (generatePipeAtX r x) + pipeGap + bottomHeight (generatePipeAtX r x)
           = GAME_HEIGHT - groundHeight"
proof -
  have lo: "40 \<le> 40 + r * 328" and hi: "40 + r * 328 < 368"
    using assms by simp_all
  have "(40::int) \<le> \<lfloor>40 + r * 328\<rfloor>"
    using lo by (simp add: le_floor_iff)
  moreover have "\<lfloor>40 + r * 328\<rfloor> < (368::int)"
    using hi by (simp add: floor_less_iff)
  ultimately have fl: "(40::real) \<le> of_int \<lfloor>40 + r * 328\<rfloor>"
      "of_int \<lfloor>40 + r * 328\<rfloor> \<le> (367::real)"
    by linarith+
  have top: "pipe_topHeight (generatePipeAtX r x) = of_int \<lfloor>40 + r * 328\<rfloor>"
    by (simp add: generatePipeAtX_def Let_def game_consts)
  have bot: "bottomHeight (generatePipeAtX r x) = 408 - of_int \<lfloor>40 + r * 328\<rfloor>"
    by (simp add: top bottomHeight_def bottomY_def game_consts)
  show ?thesis
    using fl by (simp add: top bot game_consts)
qed

theorem C6_generated_heights_witness:
  "(0::real) \<le> 0.999 \<and> (0.999::real) < 1
   \<and> pipe_topHeight (generatePipeAtX 0.999 600) = 367
   \<and> bottomHeight (generatePipeAtX 0.999 600) = 41
   \<and> 40 \<le> pipe_topHeight (generatePipeAtX 0.999 600)
   \<and> 40 \<le> bottomHeight (generatePipeAtX 0.999 600)"
  using C6_generated_heights [of "0.999" 600]
  by (simp add: generatePipeAtX_def bottomHeight_def bottomY_def game_consts)

section \<open>Best score\<close>

lemma scorePipe_best_mono:
  "scorePipe sb p (st, ws) = (p', st', ws') \<Longrightarrow> best st \<le> best st'"
  by (auto simp add: scorePipe_def Let_def die_def split: if_splits)

lemma scoreLoop_best_mono:
  "scoreLoop sb ps (st, ws) = (ps', st', ws') \<Longrightarrow> best st \<le> best st'"
proof (induction ps arbitrary: st ws ps' st' ws')
  case Nil
  then show ?case by simp
next
  case (Cons p ps)
  obtain p1 st1 ws1 where a: "scorePipe sb p (st, ws) = (p1, st1, ws1)"
    by (cases "scorePipe sb p (st, ws)") auto
  obtain ps2 st2 ws2 where b: "scoreLoop sb ps (st1, ws1) = (ps2, st2, ws2)"
    by (cases "scoreLoop sb ps (st1, ws1)") auto
  from Cons.prems a b have "st' = st2"
    by simp
  with scorePipe_best_mono [OF a] Cons.IH [OF b] show ?case
    by simp
qed

lemma groundCheck_best: "best (state (groundCheck w)) = best (state w)"
  by (simp add: groundCheck_def Let_def die_def)

lemma ceilingCheck_state: "state (ceilingCheck w) = state w"
  by (simp add: ceilingCheck_def Let_def)

lemma update_best_mono: "best (state w) \<le> best (state (update dt r w))"
proof (cases "\<not> started (state w) \<or> gameOver (state w)")
  case True
  then show ?thesis
    by (simp add: update_def)
next
  case False
  then show ?thesis
    apply (simp add: update_def Let_def split: prod.splits)
    apply clarify
    apply (drule scoreLoop_best_mono)
    apply (simp add: ceilingCheck_state groundCheck_best)
    done
qed

lemma flap_best: "best (state (flap rnd w)) = best (state w)"
  by (simp add: flap_def startGame_def resetGame_def)

lemma step_best_mono: "best (state w) \<le> best (state (step e w))"
  by (cases e) (simp_all add: flap_best update_best_mono)

lemma run_append: "run (es @ es') w = run es' (run es w)"
  by (induction es arbitrary: w) simp_all

lemma run_best_mono: "best (state w) \<le> best (state (run es w))"
proof (induction es arbitrary: w)
  case Nil
  then show ?case by simp
next
  case (Cons e es)
  have "best (state w) \<le> best (state (step e w))"
    by (rule step_best_mono)
  also have "\<dots> \<le> best (state (run es (step e w)))"
    by (rule Cons.IH)
  finally show ?case by simp
qed

text \<open>
  C8: along any sequence of flaps and ticks, from any state, the best score never
  decreases: the best after a prefix of the sequence is at most the best after the
  whole sequence. In particular a flap in the Ended state sets the score to 0 and
  leaves best as it was.
\<close>

theorem C8_best_never_decreases:
  "best (state (run es w)) \<le> best (state (run (es @ es') w))
   \<and> (started (state w) \<and> gameOver (state w) \<longrightarrow>
        score (state (flap rnd w)) = 0 \<and> best (state (flap rnd w)) = best (state w))"
  by (simp add: run_append run_best_mono flap_best) (simp add: flap_def resetGame_def)

theorem C8_best_never_decreases_witness:
  "best (state (run [Flap (\<lambda>i. 0), Tick 16 0]
      ((startGame (\<lambda>i. 0) (initial (Slot None)))
         \<lparr> state := \<lparr> started = True, gameOver = True, score = 3, best = 3,
                      newBestAchieved = True \<rparr> \<rparr>)))
     \<le> best (state (run ([Flap (\<lambda>i. 0), Tick 16 0] @ [Flap (\<lambda>i. 0), Tick 16 0])
      ((startGame (\<lambda>i. 0) (initial (Slot None)))
         \<lparr> state := \<lparr> started = True, gameOver = True, score = 3, best = 3,
                      newBestAchieved = True \<rparr> \<rparr>)))
   \<and> started (state ((startGame (\<lambda>i. 0) (initial (Slot None)))
         \<lparr> state := \<lparr> started = True, gameOver = True, score = 3, best = 3,
                      newBestAchieved = True \<rparr> \<rparr>))
   \<and> gameOver (state ((startGame (\<lambda>i. 0) (initial (Slot None)))
         \<lparr> state := \<lparr> started = True, gameOver = True, score = 3, best = 3,
                      newBestAchieved = True \<rparr> \<rparr>))
   \<and> score (state (flap (\<lambda>i. 0) ((startGame (\<lambda>i. 0) (initial (Slot None)))
         \<lparr> state := \<lparr> started = True, gameOver = True, score = 3, best = 3,
                      newBestAchieved = True \<rparr> \<rparr>))) = 0
   \<and> best (state (flap (\<lambda>i. 0) ((startGame (\<lambda>i. 0) (initial (Slot None)))
         \<lparr> state := \<lparr> started = True, gameOver = True, score = 3, best = 3,
                      newBestAchieved = True \<rparr> \<rparr>))) = 3"
  using C8_best_never_decreases [of "[Flap (\<lambda>i. 0), Tick 16 0]"
      "(startGame (\<lambda>i. 0) (initial (Slot None)))
         \<lparr> state := \<lparr> started = True, gameOver = True, score = 3, best = 3,
                      newBestAchieved = True \<rparr> \<rparr>" "[Flap (\<lambda>i. 0), Tick 16 0]" "\<lambda>i. 0"]
  by (simp add: startGame_def)

section \<open>Reading the persisted best score\<close>

lemma isDigit_not_ws: "isDigit c \<Longrightarrow> \<not> isWhiteSpace c"
  by (auto simp add: isDigit_def isWhiteSpace_def)

lemma trim_digits:
  assumes "s \<noteq> []" and "\<forall>c\<in>set s. isDigit c"
  shows "trim s = s"
proof -
  from assms have "\<not> isWhiteSpace (hd s)"
    by (simp add: isDigit_not_ws)
  with assms(1) have front: "dropWhile isWhiteSpace s = s"
    by (cases s) simp_all
  from assms have "\<not> isWhiteSpace (hd (rev s))"
    by (simp add: isDigit_not_ws hd_rev)
  with assms(1) have "dropWhile isWhiteSpace (rev s) = rev s"
    by (cases "rev s") simp_all
  with front show ?thesis
    by (simp add: trim_def)
qed

lemma take2_digits:
  assumes "\<forall>c\<in>set s. isDigit c" and "\<not> isDigit b"
  shows "take 2 s \<noteq> [a, b]"
proof
  assume "take 2 s = [a, b]"
  then have "b \<in> set (take 2 s)"
    by simp
  then have "b \<in> set s"
    by (rule in_set_takeD)
  with assms show False
    by simp
qed

lemma digits_not_Infinity:
  assumes "\<forall>c\<in>set s. isDigit c"
  shows "s \<noteq> ''Infinity''"
proof
  assume "s = ''Infinity''"
  then have "CHR ''I'' \<in> set s"
    by simp
  with assms have "isDigit (CHR ''I'')"
    by blast
  then show False
    by (simp add: isDigit_def)
qed

lemma parseUnsignedDecimal_digits:
  assumes "s \<noteq> []" and "\<forall>c\<in>set s. isDigit c"
  shows "parseUnsignedDecimal s = Some (real (decimalValue s))"
proof -
  from assms(2) have tw: "takeWhile isDigit s = s" and dw: "dropWhile isDigit s = []"
    by simp_all
  show ?thesis
    unfolding parseUnsignedDecimal_def tw dw using assms(1) by simp
qed

lemma safe_integers_finite: "(2::real) ^ 53 \<le> 2 ^ 1024 - 2 ^ 970"
proof -
  have "(2::real) ^ 53 \<le> 2 ^ 970"
    by (rule power_increasing) simp_all
  moreover have "(2::real) ^ 970 + 2 ^ 970 = 2 ^ 971"
    by simp
  moreover have "(2::real) ^ 971 \<le> 2 ^ 1024"
    by (rule power_increasing) simp_all
  ultimately show ?thesis
    by linarith
qed

lemma roundMV_small:
  assumes "n < 2 ^ 53"
  shows "roundMV (real n) = Fin (real n)"
proof -
  have "real n < real (2 ^ 53)"
    using assms by (simp only: of_nat_less_iff)
  then have "real n < 2 ^ 53"
    by simp
  with safe_integers_finite have lt: "\<not> 2 ^ 1024 - 2 ^ 970 \<le> real n"
    by linarith
  have "(0::real) < 2 ^ 53"
    by simp
  with safe_integers_finite have "- (2 ^ 1024 - 2 ^ 970) < (0::real)"
    by linarith
  moreover have "0 \<le> real n"
    by simp
  ultimately have nn: "\<not> real n \<le> - (2 ^ 1024 - 2 ^ 970)"
    by linarith
  show ?thesis
    unfolding roundMV_def by (simp only: lt nn if_False)
qed

lemma parseDecimal_digits:
  assumes "s \<noteq> []" and "\<forall>c\<in>set s. isDigit c" and "decimalValue s < 2 ^ 53"
  shows "parseDecimal s = Fin (real (decimalValue s))"
proof -
  from assms have "isDigit (hd s)"
    by simp
  then have sg: "hd s \<noteq> CHR ''+''" "hd s \<noteq> CHR ''-''"
    by (auto simp add: isDigit_def)
  show ?thesis
    unfolding parseDecimal_def
    by (simp only: sg Let_def digits_not_Infinity [OF assms(2)]
        parseUnsignedDecimal_digits [OF assms(1,2)] roundMV_small [OF assms(3)]
        simp_thms if_False option.case)
qed

lemma Number_digits:
  assumes "s \<noteq> []" and "\<forall>c\<in>set s. isDigit c" and "decimalValue s < 2 ^ 53"
  shows "Number s = Fin (real (decimalValue s))"
proof -
  have t: "trim s = s"
    using assms(1,2) by (rule trim_digits)
  have nx: "take 2 s \<noteq> ''0x''" "take 2 s \<noteq> ''0X''" "take 2 s \<noteq> ''0o''"
      "take 2 s \<noteq> ''0O''" "take 2 s \<noteq> ''0b''" "take 2 s \<noteq> ''0B''"
    using assms(2) by (simp_all add: take2_digits isDigit_def)
  show ?thesis
    unfolding Number_def
    by (simp only: t Let_def nx assms(1) simp_thms if_False parseDecimal_digits [OF assms])
qed

text \<open>
  C4, as stated: whatever is stored, the startup read returns a non-negative integer,
  and 0 when the value is absent or not numeric. The code keeps every finite number
  \<^verbatim>\<open>Number(raw)\<close> produces (line 166 tests \<^verbatim>\<open>Number.isFinite\<close> only): the
  stored text \<^verbatim>\<open>-5\<close> is read as \<open>-5\<close>, and \<^verbatim>\<open>1.5\<close> as \<open>1.5\<close>.
\<close>

theorem C4_readBestScore_counterexample:
  "readBestScore (Slot (Some ''-5'')) = - 5 \<and> readBestScore (Slot (Some ''1.5'')) = 3 / 2"
  by (simp add: readBestScore_def isFinite_def Number_def trim_def isWhiteSpace_def
      parseDecimal_def parseUnsignedDecimal_def parseExponent_def isDigit_def
      decimalValue_def roundMV_def)

text \<open>
  C4, amended: for every persisted raw value the startup read returns a finite number.
  It returns 0 when the storage cannot be read, when the value is absent, and when the
  text does not convert to a finite number (\<^verbatim>\<open>NaN\<close> or an infinity); otherwise it
  returns the number the text denotes. When the text is a non-empty run of decimal
  digits below \<open>2^53\<close>, which is what the program itself writes, the result is that
  non-negative integer.
\<close>

theorem C4_readBestScore:
  "readBestScore Unavailable = 0
   \<and> readBestScore (Slot None) = 0
   \<and> (\<not> isFinite (Number s) \<longrightarrow> readBestScore (Slot (Some s)) = 0)
   \<and> (Number s = Fin v \<longrightarrow> readBestScore (Slot (Some s)) = v)
   \<and> (s \<noteq> [] \<and> (\<forall>c\<in>set s. isDigit c) \<and> decimalValue s < 2 ^ 53 \<longrightarrow>
        readBestScore (Slot (Some s)) = real (decimalValue s))"
  by (simp add: readBestScore_def isFinite_def Number_digits)

theorem C4_readBestScore_witness:
  "\<not> isFinite (Number ''abc'') \<and> readBestScore (Slot (Some ''abc'')) = 0
   \<and> Number ''42'' = Fin 42 \<and> ''42'' \<noteq> []
   \<and> isDigit (CHR ''4'') \<and> isDigit (CHR ''2'') \<and> decimalValue ''42'' = 42
   \<and> decimalValue ''42'' < 2 ^ 53
   \<and> readBestScore (Slot (Some ''42'')) = 42"
  using C4_readBestScore [of "''abc''" 0] C4_readBestScore [of "''42''" 42]
  by (simp add: isFinite_def Number_def trim_def isWhiteSpace_def parseDecimal_def
      parseUnsignedDecimal_def isDigit_def decimalValue_def roundMV_def)

section \<open>The obstacle sequence during a tick\<close>

lemma scorePipe_pipe:
  "fst (scorePipe sb p acc) =
     p \<lparr> pipe_passed := pipe_passed p \<or> sb_x sb > pipe_x p + pipe_width p \<rparr>"
  by (cases p) (simp add: scorePipe_def Let_def)

lemma scoreLoop_pipes:
  "fst (scoreLoop sb ps acc) =
     map (\<lambda>p. p \<lparr> pipe_passed := pipe_passed p \<or> sb_x sb > pipe_x p + pipe_width p \<rparr>) ps"
proof (induction ps arbitrary: acc)
  case Nil
  then show ?case by simp
next
  case (Cons p ps)
  obtain p1 acc1 where a: "scorePipe sb p acc = (p1, acc1)"
    by (cases "scorePipe sb p acc") auto
  obtain ps2 acc2 where b: "scoreLoop sb ps acc1 = (ps2, acc2)"
    by (cases "scoreLoop sb ps acc1") auto
  from a have "p1 = fst (scorePipe sb p acc)"
    by simp
  then have p1: "p1 = p \<lparr> pipe_passed := pipe_passed p \<or> sb_x sb > pipe_x p + pipe_width p \<rparr>"
    by (simp only: scorePipe_pipe)
  from b have "ps2 = fst (scoreLoop sb ps acc1)"
    by simp
  then have ps2: "ps2 =
      map (\<lambda>p. p \<lparr> pipe_passed := pipe_passed p \<or> sb_x sb > pipe_x p + pipe_width p \<rparr>) ps"
    by (simp only: Cons.IH)
  show ?case
    using a b by (simp add: p1 ps2)
qed

lemma groundCheck_pipes: "pipes (groundCheck w) = pipes w"
  by (simp add: groundCheck_def Let_def)

lemma ceilingCheck_pipes: "pipes (ceilingCheck w) = pipes w"
  by (simp add: ceilingCheck_def Let_def)

lemma groundCheck_sb_x: "sb_x (strawberry (groundCheck w)) = sb_x (strawberry w)"
  by (simp add: groundCheck_def Let_def)

lemma ceilingCheck_sb_x: "sb_x (strawberry (ceilingCheck w)) = sb_x (strawberry w)"
  by (simp add: ceilingCheck_def Let_def)

lemma integrate_sb_x: "sb_x (integrate dtS sb) = sb_x sb"
  by (simp add: integrate_def Let_def)

lemma update_pipes:
  assumes "started (state w)" and "\<not> gameOver (state w)"
  shows "pipes (update dt r w) =
     map (\<lambda>p. p \<lparr> pipe_passed :=
                  pipe_passed p \<or> sb_x (strawberry w) > pipe_x p + pipe_width p \<rparr>)
       (scoringInput dt r w)"
proof -
  let ?w3 = "ceilingCheck (groundCheck
      (w \<lparr> strawberry := integrate (dt / 1000) (strawberry w) \<rparr>))"
  have "pipes (update dt r w) =
      fst (scoreLoop (strawberry ?w3) (scoringInput dt r w) (state ?w3, bestWrites ?w3))"
    using assms
    by (simp add: update_def Let_def scoringInput_def ceilingCheck_pipes groundCheck_pipes
        split: prod.splits)
  then show ?thesis
    by (simp add: scoreLoop_pipes ceilingCheck_sb_x groundCheck_sb_x integrate_sb_x)
qed

section \<open>Scoring\<close>





lemma spawnLast_nth:
  "j < length ps \<Longrightarrow> j < length (spawnLast r ps) \<and> spawnLast r ps ! j = ps ! j"
  by (simp add: spawnLast_def nth_append)

lemma tracked_nth:
  assumes "i < length (pipes w)" and "\<not> (retiresHead dt w \<and> i = 0)"
  shows "(if retiresHead dt w then i - 1 else i) < length (scoringInput dt r w)
       \<and> scoringInput dt r w ! (if retiresHead dt w then i - 1 else i)
           = movePipe (dt / 1000) (pipes w ! i)"
proof -
  let ?ms = "map (movePipe (dt / 1000)) (pipes w)"
  let ?j = "if retiresHead dt w then i - 1 else i"
  have "?j < length (retireFirst ?ms) \<and> retireFirst ?ms ! ?j = ?ms ! i"
  proof (cases "retiresHead dt w")
    case True
    with assms(2) have i: "0 < i"
      by simp
    from True have "retireFirst ?ms = tl ?ms"
      by (cases ?ms) (auto simp add: retiresHead_def retireFirst_def split: if_splits)
    with True i assms(1) show ?thesis
      by (simp add: nth_tl)
  next
    case False
    then have "retireFirst ?ms = ?ms"
      by (simp add: retiresHead_def)
    with False assms(1) show ?thesis
      by simp
  qed
  then have "?j < length (retireFirst ?ms)" and b: "retireFirst ?ms ! ?j = ?ms ! i"
    by blast+
  from spawnLast_nth [OF this(1), of r] b assms(1) show ?thesis
    unfolding scoringInput_def by simp
qed

lemma tracked_passed:
  assumes "started (state w)" and "\<not> gameOver (state w)"
    and "i < length (pipes w)" and "\<not> (retiresHead dt w \<and> i = 0)"
    and "j = (if retiresHead dt w then i - 1 else i)"
  shows "j < length (pipes (update dt r w))"
    and "pipe_passed (pipes (update dt r w) ! j) =
          (pipe_passed (pipes w ! i)
           \<or> sb_x (strawberry w)
               > pipe_x (pipes w ! i) - pipeSpeed * (dt / 1000) + pipe_width (pipes w ! i))"
  using tracked_nth [OF assms(3,4), of r] assms(1,2,5)
  by (simp_all add: update_pipes movePipe_def)

lemma update_sb_x: "sb_x (strawberry (update dt r w)) = sb_x (strawberry w)"
  by (simp add: update_def Let_def groundCheck_sb_x ceilingCheck_sb_x integrate_sb_x
      split: prod.splits)

lemma retireFirst_subset: "set (retireFirst ps) \<subseteq> set ps"
  by (cases ps) (auto simp add: retireFirst_def)

lemma scoringInput_width:
  assumes "\<forall>p\<in>set (pipes w). pipe_width p = pipeWidth"
  shows "\<forall>p\<in>set (scoringInput dt r w). pipe_width p = pipeWidth"
proof -
  have "\<forall>p\<in>set (map (movePipe (dt / 1000)) (pipes w)). pipe_width p = pipeWidth"
    using assms by (simp add: movePipe_def)
  then have "\<forall>p\<in>set (retireFirst (map (movePipe (dt / 1000)) (pipes w))).
      pipe_width p = pipeWidth"
    using retireFirst_subset by blast
  then show ?thesis
    by (auto simp add: scoringInput_def spawnLast_def generatePipeAtX_def Let_def)
qed

lemma scoredBehind_update:
  assumes "scoredBehind w"
  shows "scoredBehind (update dt r w)"
proof (cases "started (state w) \<and> \<not> gameOver (state w)")
  case True
  from assms have "\<forall>p\<in>set (pipes w). pipe_width p = pipeWidth"
    by (simp add: scoredBehind_def list_all_iff)
  then have "\<forall>p\<in>set (scoringInput dt r w). pipe_width p = pipeWidth"
    by (rule scoringInput_width)
  with True assms show ?thesis
    by (simp add: scoredBehind_def list_all_iff update_pipes update_sb_x)
next
  case False
  then have "update dt r w = w"
    by (auto simp add: update_def)
  with assms show ?thesis
    by simp
qed



text \<open>
  A tick of at most 32 ms moves an obstacle by at most 4: a head that the tick retires
  (trailing edge left of \<open>-10\<close> after the move) had its trailing edge left of \<open>-6\<close>
  before the tick, behind the avatar, so its latch was set.
\<close>

lemma retired_was_scored:
  assumes "scoredBehind w" and "dt \<le> 32" and "retiresHead dt w"
  shows "pipes w \<noteq> [] \<and> pipe_passed (pipes w ! 0)"
proof (cases "pipes w")
  case Nil
  with assms(3) show ?thesis
    by (simp add: retiresHead_def retireFirst_def)
next
  case (Cons p ps)
  with assms(3) have "pipe_x p - pipeSpeed * (dt / 1000) + pipeWidth < - 10"
    by (auto simp add: retiresHead_def retireFirst_def movePipe_def split: if_splits)
  with assms(2) have "pipe_x p + pipeWidth < 80"
    by (simp add: pipeSpeed_def)
  moreover from assms(1) Cons have "sb_x (strawberry w) = 80" "pipe_width p = pipeWidth"
    "sb_x (strawberry w) > pipe_x p + pipe_width p \<longrightarrow> pipe_passed p"
    by (simp_all add: scoredBehind_def)
  ultimately show ?thesis
    using Cons by simp
qed

lemma incrementTicks_firstBehind:
  assumes "scoredBehind w" and "list_all (\<lambda>t. fst t \<le> 32) ts" and "i < length (pipes w)"
  shows "incrementTicks ts w i =
     (if pipe_passed (pipes w ! i) then []
      else case firstBehind ts w i of None \<Rightarrow> [] | Some k \<Rightarrow> [k])"
  using assms
proof (induction ts arbitrary: w i)
  case Nil
  then show ?case by simp
next
  case (Cons t ts)
  obtain dt r where t: "t = (dt, r)"
    by (cases t)
  from Cons.prems(2) t have cap: "dt \<le> 32" and caps: "list_all (\<lambda>t. fst t \<le> 32) ts"
    by simp_all
  show ?case
  proof (cases "\<not> started (state w) \<or> gameOver (state w)")
    case True
    with Cons.IH [OF Cons.prems(1) caps Cons.prems(3)] t show ?thesis
      by (simp split: option.splits)
  next
    case run: False
    then have r1: "started (state w)" and r2: "\<not> gameOver (state w)"
      by simp_all
    show ?thesis
    proof (cases "retiresHead dt w \<and> i = 0")
      case True
      with retired_was_scored [OF Cons.prems(1) cap] have "pipe_passed (pipes w ! i)"
        by simp
      with True run t show ?thesis
        by simp
    next
      case False
      define j where "j = (if retiresHead dt w then i - 1 else i)"
      define behind where "behind \<longleftrightarrow> sb_x (strawberry w)
          > pipe_x (pipes w ! i) - pipeSpeed * (dt / 1000) + pipe_width (pipes w ! i)"
      note tp = tracked_passed [OF r1 r2 Cons.prems(3) False j_def, of r]
      have latch: "pipe_passed (pipes (update dt r w) ! j)
          = (pipe_passed (pipes w ! i) \<or> behind)"
        using tp(2) by (simp only: behind_def)
      note ih = Cons.IH [OF scoredBehind_update [OF Cons.prems(1)] caps tp(1)]
      have inc: "incrementTicks (t # ts) w i =
          (if \<not> pipe_passed (pipes w ! i) \<and> pipe_passed (pipes (update dt r w) ! j)
           then [0] else [])
          @ map Suc (incrementTicks ts (update dt r w) j)"
        using r1 r2 False by (auto simp add: t j_def Let_def)
      have fb: "firstBehind (t # ts) w i =
          (if behind then Some 0 else map_option Suc (firstBehind ts (update dt r w) j))"
        using r1 r2 False by (auto simp add: t j_def behind_def)
      show ?thesis
        unfolding inc fb ih latch
        by (cases "pipe_passed (pipes w ! i)"; cases behind) (simp_all split: option.splits)
    qed
  qed
qed





text \<open>
  The same accounting on a state with an obstacle about to be passed: the first obstacle
  is at 25.6, its trailing edge at 81.6, ahead of the avatar at 80; the first tick of
  32 ms moves it by 4, and that tick, and no other, scores it.
\<close>

lemma scoring_example:
  "scoredBehind ((startGame (\<lambda>i. 1 / 2) (initial (Slot None)))
        \<lparr> pipes := [generatePipeAtX (1 / 2) 25.6, generatePipeAtX (1 / 2) 265.6] \<rparr>)
   \<and> firstBehind [(32, 1 / 2), (32, 1 / 2)] ((startGame (\<lambda>i. 1 / 2) (initial (Slot None)))
        \<lparr> pipes := [generatePipeAtX (1 / 2) 25.6, generatePipeAtX (1 / 2) 265.6] \<rparr>) 0 = Some 0
   \<and> incrementTicks [(32, 1 / 2), (32, 1 / 2)] ((startGame (\<lambda>i. 1 / 2) (initial (Slot None)))
        \<lparr> pipes := [generatePipeAtX (1 / 2) 25.6, generatePipeAtX (1 / 2) 265.6] \<rparr>) 0 = [0]"
proof -
  let ?W = "(startGame (\<lambda>i. 1 / 2) (initial (Slot None)))
        \<lparr> pipes := [generatePipeAtX (1 / 2) 25.6, generatePipeAtX (1 / 2) 265.6] \<rparr>"
  have sb: "scoredBehind ?W"
    by (simp add: scoredBehind_def startGame_def initial_def generatePipeAtX_def Let_def
        game_consts)
  have cap: "list_all (\<lambda>t. fst t \<le> 32) [(32::real, 1 / 2 :: real), (32, 1 / 2)]"
    by simp
  have len: "0 < length (pipes ?W)"
    by simp
  have np: "\<not> pipe_passed (pipes ?W ! 0)"
    by (simp add: generatePipeAtX_def Let_def)
  have fb: "firstBehind [(32, 1 / 2), (32, 1 / 2)] ?W 0 = Some 0"
    by (simp add: startGame_def initial_def generatePipeAtX_def Let_def game_consts)
  from incrementTicks_firstBehind [OF sb cap len] np fb
  have "incrementTicks [(32, 1 / 2), (32, 1 / 2)] ?W 0 = [0]"
    by simp
  with sb fb show ?thesis
    by blast
qed

section \<open>Spacing of the obstacles\<close>

lemma spaced_move:
  "successively spacedBy ps \<Longrightarrow> successively spacedBy (map (movePipe dtS) ps)"
  by (simp add: successively_map movePipe_def)

lemma spaced_retire: "successively spacedBy ps \<Longrightarrow> successively spacedBy (retireFirst ps)"
  by (cases ps) (auto simp add: retireFirst_def successively_Cons)

lemma spaced_spawn: "successively spacedBy ps \<Longrightarrow> successively spacedBy (spawnLast r ps)"
  by (simp add: spawnLast_def successively_append_iff generatePipeAtX_def Let_def)

lemma spaced_update:
  assumes "successively spacedBy (pipes w)"
  shows "successively spacedBy (pipes (update dt r w))"
proof (cases "started (state w) \<and> \<not> gameOver (state w)")
  case True
  from assms have "successively spacedBy (scoringInput dt r w)"
    unfolding scoringInput_def by (intro spaced_spawn spaced_retire spaced_move)
  with True show ?thesis
    by (simp add: update_pipes successively_map)
next
  case False
  with assms show ?thesis
    by (auto simp add: update_def)
qed

lemma spaced_flap:
  "successively spacedBy (pipes w) \<Longrightarrow> successively spacedBy (pipes (flap rnd w))"
  by (simp add: flap_def startGame_def resetGame_def numeral_eq_Suc generatePipeAtX_def
      Let_def)

lemma spaced_reachable: "reachable w \<Longrightarrow> successively spacedBy (pipes w)"
proof (induction rule: reachable.induct)
  case (reachable_initial sto)
  then show ?case
    by (simp add: initial_def)
next
  case (reachable_step w e)
  then show ?case
    by (cases e) (simp_all add: spaced_update spaced_flap)
qed

lemma spaced_sorted:
  assumes "successively spacedBy ps"
  shows "sorted_wrt (\<lambda>p q. pipe_x p < pipe_x q) ps"
proof -
  have s: "successively (\<lambda>p q. pipe_x p < pipe_x q) ps"
    using assms by (rule successively_mono) (simp_all add: pipeSpacing_def)
  have t: "transp (\<lambda>p q. pipe_x p < pipe_x q)"
    by (auto simp add: transp_def)
  show ?thesis
    using s successively_conv_sorted_wrt [OF t, of ps] by blast
qed

text \<open>
  C10, as stated: in every reachable state two consecutive obstacles are exactly 240
  apart. The program computes \<^verbatim>\<open>pipe.x -= pipeSpeed * dtS\<close> in doubles, for each
  obstacle on its own, and the result is rounded to the grid of the binade it falls in:
  the same step moves obstacles in different binades by slightly different amounts.
  Counterexample: the run has just started, with obstacles at 480, 720, 960 and 1200,
  and the first tick has \<open>dt\<close> the double nearest to 16.7 ms. That tick retires and
  spawns nothing and the scoring loop leaves every x alone, so the third and fourth
  obstacle end at the doubles nearest to \<open>960 - d\<close> and \<open>1200 - d\<close>, which lie in
  \<open>[512, 1024)\<close> and \<open>[1024, 2048)\<close>; they are \<open>240 - 2^-43\<close> apart.
\<close>

theorem C10_spacing_double_counterexample:
  "pipe_x (movePipeDouble (4700632111067955 / 281474976710656)
             (pipes (startGame (\<lambda>i. 0) (initial (Slot None))) ! 3))
   - pipe_x (movePipeDouble (4700632111067955 / 281474976710656)
             (pipes (startGame (\<lambda>i. 0) (initial (Slot None))) ! 2))
   = 240 - 1 / 2 ^ 43"
  by code_simp

text \<open>
  C10, amended: when the arithmetic of a tick is exact, in every state reachable from
  the state at load time by any sequence of ticks and flaps (any \<open>dt\<close>, any draws) the
  obstacle sequence is strictly increasing in x from head to tail, and every two
  consecutive obstacles are exactly \<open>pipeSpacing = 240\<close> apart. In the program's
  doubles the differences are 240 up to the rounding of each tick.
\<close>

theorem C10_spacing_exact_arithmetic:
  assumes "reachable w"
  shows "sorted_wrt (\<lambda>p q. pipe_x p < pipe_x q) (pipes w)
       \<and> (\<forall>i. Suc i < length (pipes w) \<longrightarrow>
             pipe_x (pipes w ! Suc i) - pipe_x (pipes w ! i) = pipeSpacing)
       \<and> pipeSpacing = 240"
  using spaced_reachable [OF assms] spaced_sorted [of "pipes w"]
  by (simp add: successively_conv_nth pipeSpacing_def)

theorem C10_spacing_exact_arithmetic_witness:
  "reachable (step (Tick 16 0) (step (Flap (\<lambda>i. 0)) (initial (Slot None))))
   \<and> map pipe_x (pipes (step (Tick 16 0) (step (Flap (\<lambda>i. 0)) (initial (Slot None)))))
       = [478, 718, 958, 1198]
   \<and> sorted_wrt (\<lambda>p q. pipe_x p < pipe_x q)
       (pipes (step (Tick 16 0) (step (Flap (\<lambda>i. 0)) (initial (Slot None)))))"
proof -
  have r: "reachable (step (Tick 16 0) (step (Flap (\<lambda>i. 0)) (initial (Slot None))))"
    by (intro reachable.intros)
  have m: "map pipe_x (pipes (step (Tick 16 0) (step (Flap (\<lambda>i. 0)) (initial (Slot None)))))
       = [478, 718, 958, 1198]"
    by (simp add: initial_def flap_def startGame_def numeral_eq_Suc update_pipes
        scoringInput_def retireFirst_def spawnLast_def movePipe_def generatePipeAtX_def
        game_consts Let_def)
  from C10_spacing_exact_arithmetic [OF r] r m show ?thesis
    by simp
qed

end
